theory Spec2Isabelle
  imports Complex_Main "HOL-Library.Sublist"
begin

unbundle bit_operations_syntax

section \<open>JavaScript values\<close>

text \<open>
  The event pipeline receives its payloads from a JSON body, so a value is what
  \<^verbatim>\<open>JSON.parse\<close> produces: null, a boolean, a number, a string, an array or an object.
  An object is the list of its own properties in the order \<^verbatim>\<open>Object.entries\<close> and
  \<^verbatim>\<open>JSON.stringify\<close> enumerate them; its keys are distinct. Strings are byte strings
  (the UTF-8 encoding that the digest is computed over).

  A number is a double. A finite one is written \<open>Dec m e\<close>, for the double that JavaScript
  prints as the decimal \<open>m * 10 ^ e\<close>: the shortest decimal that denotes it, with no
  trailing zero in \<open>m\<close>. Zero is \<open>Dec 0 0\<close>; the negative zero is not told apart from it
  (\<^verbatim>\<open>JSON.stringify\<close> prints both as \<^verbatim>\<open>0\<close>, and both are falsy). The two infinities are
  values, since \<open>parseFloat\<close> and \<^verbatim>\<open>JSON.parse\<close> give them for a literal beyond the range
  of the doubles. \<^verbatim>\<open>NaN\<close> appears only as the failure of \<open>parseFloat\<close>.
\<close>

datatype jsnum = Dec int int | Infinity | NegInfinity

datatype jsval =
    JNull
  | JBool bool
  | JNum jsnum
  | JStr string
  | JArr "jsval list"
  | JObj "(string \<times> jsval) list"

fun truthy :: "jsval \<Rightarrow> bool" where
  "truthy JNull = False"
| "truthy (JBool b) = b"
| "truthy (JNum (Dec m e)) = (m \<noteq> 0)"
| "truthy (JNum Infinity) = True"
| "truthy (JNum NegInfinity) = True"
| "truthy (JStr s) = (s \<noteq> [])"
| "truthy (JArr xs) = True"
| "truthy (JObj kvs) = True"

text \<open>\<^verbatim>\<open>typeof v === 'object'\<close>: true of null, arrays and objects.\<close>

fun typeof_object :: "jsval \<Rightarrow> bool" where
  "typeof_object JNull = True"
| "typeof_object (JArr xs) = True"
| "typeof_object (JObj kvs) = True"
| "typeof_object v = False"


subsection \<open>Numbers as text\<close>

definition digit_char :: "int \<Rightarrow> char" where
  "digit_char d = char_of (48 + d)"

function digits10 :: "int \<Rightarrow> string" where
  "digits10 n = (if n < 10 then [digit_char n] else digits10 (n div 10) @ [digit_char (n mod 10)])"
  by pat_completeness auto
termination
  by (relation "measure nat") auto

text \<open>Trailing zeros of the mantissa move into the exponent.\<close>

function strip_zeros :: "int \<Rightarrow> int \<Rightarrow> int \<times> int" where
  "strip_zeros m e =
     (if m \<noteq> 0 \<and> m mod 10 = 0 then strip_zeros (m div 10) (e + 1) else (m, e))"
  by pat_completeness auto
termination
  by (relation "measure (\<lambda>(m, e). nat \<bar>m\<bar>)") auto

text \<open>
  \<^verbatim>\<open>Number.prototype.toString\<close> (ECMAScript Number::toString, radix 10): with \<open>k\<close>
  significant digits and the decimal point after the \<open>n\<close>-th of them, the number is
  written plainly when \<open>-6 < n \<le> 21\<close> and with an exponent otherwise.
\<close>

definition Number_toString :: "jsnum \<Rightarrow> string" where
  "Number_toString x =
     (case x of
        Infinity \<Rightarrow> ''Infinity''
      | NegInfinity \<Rightarrow> ''-Infinity''
      | Dec m0 e0 \<Rightarrow>
        if m0 = 0 then ''0''
        else
          (case strip_zeros \<bar>m0\<bar> e0 of (m, e) \<Rightarrow>
             let ds = digits10 m;
                 k = int (length ds);
                 n = k + e;
                 body =
                   (if k \<le> n \<and> n \<le> 21 then ds @ replicate (nat (n - k)) (CHR ''0'')
                    else if 0 < n \<and> n \<le> 21 then take (nat n) ds @ ''.'' @ drop (nat n) ds
                    else if - 6 < n \<and> n \<le> 0 then ''0.'' @ replicate (nat (- n)) (CHR ''0'') @ ds
                    else
                      (let ex = (if n - 1 < 0 then ''-'' else ''+'') @ digits10 \<bar>n - 1\<bar>
                       in if k = 1 then ds @ ''e'' @ ex
                          else hd ds # ''.'' @ tl ds @ ''e'' @ ex))
             in (if m0 < 0 then ''-'' else []) @ body))"

definition is_digit :: "char \<Rightarrow> bool" where
  "is_digit c = (48 \<le> (of_char c :: int) \<and> (of_char c :: int) \<le> 57)"

fun digits_value :: "int \<Rightarrow> string \<Rightarrow> int" where
  "digits_value acc [] = acc"
| "digits_value acc (c # cs) = digits_value (acc * 10 + (of_char c - 48)) cs"

subsection \<open>Text as numbers\<close>

text \<open>
  The value of a decimal literal is the double nearest to it, a tie going to the even
  significand (IEEE 754, round to nearest). The literal is a positive fraction \<open>a / b\<close> of
  integers, which is rounded exactly.
\<close>

function bit_length :: "int \<Rightarrow> int" where
  "bit_length n = (if n \<le> 0 then 0 else 1 + bit_length (n div 2))"
  by pat_completeness auto
termination
  by (relation "measure nat") auto

text \<open>The fraction \<open>a / b\<close> times \<open>base ^ k\<close>, for \<open>k\<close> of either sign.\<close>

definition scale :: "int \<Rightarrow> int \<Rightarrow> int \<times> int \<Rightarrow> int \<times> int" where
  "scale base k ab =
     (case ab of (a, b) \<Rightarrow> if 0 \<le> k then (a * base ^ nat k, b) else (a, b * base ^ nat (- k)))"

text \<open>The exponent \<open>g\<close> with \<open>2 ^ g \<le> a / b < 2 ^ (g + 1)\<close>.\<close>

definition floor_log2 :: "int \<times> int \<Rightarrow> int" where
  "floor_log2 ab =
     (case ab of (a, b) \<Rightarrow>
        let g = bit_length a - bit_length b in
        case scale 2 (- g) (a, b) of (c, d) \<Rightarrow> if d \<le> c then g else g - 1)"

text \<open>A fraction rounded to the nearest integer, a tie going to the even one.\<close>

definition round_half_even :: "int \<times> int \<Rightarrow> int" where
  "round_half_even ab =
     (case ab of (a, b) \<Rightarrow>
        let q = a div b; r = a mod b in
        if 2 * r < b then q else if b < 2 * r then q + 1 else if even q then q else q + 1)"

text \<open>
  The double nearest to the positive fraction \<open>a / b\<close>, as the pair \<open>(M, p)\<close> that stands for
  \<open>M * 2 ^ p\<close>, with \<open>M < 2 ^ 53\<close> and \<open>- 1074 \<le> p \<le> 971\<close> (below \<open>2 ^ - 1022\<close> the doubles are
  the multiples of \<open>2 ^ - 1074\<close>); \<open>None\<close> when the fraction rounds beyond the largest
  double.
\<close>

definition to_double :: "int \<times> int \<Rightarrow> (int \<times> int) option" where
  "to_double ab =
     (let p = max (floor_log2 ab - 52) (- 1074);
          M = round_half_even (scale 2 (- p) ab)
      in if M = 2 ^ 53 then (if 971 \<le> p then None else Some (2 ^ 52, p + 1))
         else if 971 < p then None else Some (M, p))"

definition double_value :: "int \<times> int \<Rightarrow> int \<times> int" where
  "double_value d = (case d of (M, p) \<Rightarrow> scale 2 p (M, 1))"

text \<open>The position \<open>n\<close> of the decimal point: \<open>10 ^ (n - 1) \<le> a / b < 10 ^ n\<close>.\<close>

function leading_zeros :: "int \<Rightarrow> int \<Rightarrow> int" where
  "leading_zeros a b = (if a \<le> 0 \<or> b \<le> a * 10 then 0 else 1 + leading_zeros (a * 10) b)"
  by pat_completeness auto
termination
  by (relation "measure (\<lambda>(a, b). nat (b - a))") auto

definition decimal_point :: "int \<times> int \<Rightarrow> int" where
  "decimal_point ab =
     (case ab of (a, b) \<Rightarrow>
        if b \<le> a then int (length (digits10 (a div b))) else - leading_zeros a b)"

text \<open>
  The shortest decimal that denotes the double \<open>d\<close> of value \<open>v\<close> (ECMAScript
  Number::toString, steps 5 and 6): for \<open>k = 1, 2, ...\<close> digits, the two decimals of \<open>k\<close>
  digits around \<open>v\<close> are tried, and of those whose value is \<open>d\<close> the nearer to \<open>v\<close> is the
  result. Seventeen digits always suffice.
\<close>

definition rounds_to :: "int \<times> int \<Rightarrow> int \<Rightarrow> int \<Rightarrow> bool" where
  "rounds_to d q s = (to_double (scale 10 q (s, 1)) = Some d)"

fun shortest :: "nat \<Rightarrow> int \<Rightarrow> int \<times> int \<Rightarrow> int \<times> int \<Rightarrow> int \<times> int" where
  "shortest 0 q v d = (round_half_even (scale 10 (- q) v), q)"
| "shortest (Suc fuel) q v d =
     (case scale 10 (- q) v of (a, b) \<Rightarrow>
        if rounds_to d q (a div b)
        then (if rounds_to d q (a div b + 1) then (round_half_even (a, b), q) else (a div b, q))
        else if rounds_to d q (a div b + 1) then (a div b + 1, q)
        else shortest fuel (q - 1) v d)"

definition shortest_decimal :: "int \<times> int \<Rightarrow> int \<times> int" where
  "shortest_decimal d =
     (let v = double_value d in
      case shortest 16 (decimal_point v - 1) v d of (s, q) \<Rightarrow> strip_zeros s q)"

fun decimal :: "int \<times> int \<Rightarrow> jsnum" where
  "decimal (m, e) = Dec m e"

definition number_of_double :: "(int \<times> int) option \<Rightarrow> jsnum" where
  "number_of_double d =
     (case d of
        None \<Rightarrow> Infinity
      | Some d \<Rightarrow> if fst d = 0 then Dec 0 0 else decimal (shortest_decimal d))"

text \<open>The number that the literal \<open>a / b\<close> denotes, for \<open>a \<ge> 0\<close> and \<open>b > 0\<close>.\<close>

definition number_of_fraction :: "int \<Rightarrow> int \<Rightarrow> jsnum" where
  "number_of_fraction a b = (if a = 0 then Dec 0 0 else number_of_double (to_double (a, b)))"

fun negate :: "jsnum \<Rightarrow> jsnum" where
  "negate (Dec m e) = Dec (- m) e"
| "negate Infinity = NegInfinity"
| "negate NegInfinity = Infinity"

text \<open>
  The number that the decimal \<open>m * 10 ^ e\<close> denotes, as \<^verbatim>\<open>JSON.parse\<close> reads a number of
  the body. The numbers that are values of the program are those that denote themselves.
\<close>

definition number_of_decimal :: "int \<Rightarrow> int \<Rightarrow> jsnum" where
  "number_of_decimal m e =
     (case scale 10 e (\<bar>m\<bar>, 1) of (a, b) \<Rightarrow>
        if m < 0 then negate (number_of_fraction a b) else number_of_fraction a b)"

definition is_double :: "jsnum \<Rightarrow> bool" where
  "is_double x = (case x of Dec m e \<Rightarrow> number_of_decimal m e = x | _ \<Rightarrow> True)"

text \<open>
  \<^verbatim>\<open>parseFloat\<close> on the strings it is given here, which hold only digits, \<open>.\<close> and \<open>-\<close>:
  an optional sign, then the longest prefix \<open>digits [. digits]\<close> or \<open>. digits\<close>; what follows
  is ignored. \<open>None\<close> is \<^verbatim>\<open>NaN\<close>.
\<close>

definition integer_part :: "string \<Rightarrow> string" where
  "integer_part r = takeWhile is_digit r"

definition fraction_part :: "string \<Rightarrow> string" where
  "fraction_part r =
     (case dropWhile is_digit r of
        [] \<Rightarrow> []
      | c # cs \<Rightarrow> if c = CHR ''.'' then takeWhile is_digit cs else [])"

definition unsigned_value :: "string \<Rightarrow> jsnum option" where
  "unsigned_value r =
     (if integer_part r = [] \<and> fraction_part r = [] then None
      else Some (number_of_fraction (digits_value 0 (integer_part r @ fraction_part r))
                   (10 ^ length (fraction_part r))))"

definition parseFloat :: "string \<Rightarrow> jsnum option" where
  "parseFloat s =
     (case s of
        [] \<Rightarrow> None
      | c # r \<Rightarrow> if c = CHR ''-'' then map_option negate (unsigned_value r) else unsigned_value s)"

subsection \<open>String conversion\<close>

fun intercalate :: "string \<Rightarrow> string list \<Rightarrow> string" where
  "intercalate sep [] = []"
| "intercalate sep [x] = x"
| "intercalate sep (x # y # ys) = x @ sep @ intercalate sep (y # ys)"

fun those_strings :: "string option list \<Rightarrow> string list option" where
  "those_strings [] = Some []"
| "those_strings (None # xs) = None"
| "those_strings (Some s # xs) = map_option ((#) s) (those_strings xs)"

text \<open>
  \<^verbatim>\<open>String(v)\<close>. An array is joined with commas, null elements giving the empty string.
  An object is \<^verbatim>\<open>[object Object]\<close>, unless it has an own property \<^verbatim>\<open>toString\<close>: a
  JSON value is never callable, so the conversion to a primitive throws a TypeError
  (\<open>None\<close>).
\<close>

fun js_String :: "jsval \<Rightarrow> string option" where
  "js_String JNull = Some ''null''"
| "js_String (JBool b) = Some (if b then ''true'' else ''false'')"
| "js_String (JNum n) = Some (Number_toString n)"
| "js_String (JStr s) = Some s"
| "js_String (JArr xs) =
     map_option (intercalate '','')
       (those_strings (map (\<lambda>x. if x = JNull then Some [] else js_String x) xs))"
| "js_String (JObj kvs) =
     (if ''toString'' \<in> set (map fst kvs) then None else Some ''[object Object]'')"

subsection \<open>JSON.stringify\<close>

definition hex_char :: "int \<Rightarrow> char" where
  "hex_char d = (if d < 10 then char_of (48 + d) else char_of (87 + d))"

text \<open>
  QuoteJSONString, character by character: the quote and the backslash are escaped, the
  control characters have their short or \<^verbatim>\<open>\u00XX\<close> escapes, every other byte stands
  for itself.
\<close>

definition quote_char :: "char \<Rightarrow> string" where
  "quote_char c =
     (let n = (of_char c :: int) in
      if n = 34 then [CHR 0x5C, CHR 0x22]
      else if n = 92 then [CHR 0x5C, CHR 0x5C]
      else if n = 8 then [CHR 0x5C, CHR ''b'']
      else if n = 9 then [CHR 0x5C, CHR ''t'']
      else if n = 10 then [CHR 0x5C, CHR ''n'']
      else if n = 12 then [CHR 0x5C, CHR ''f'']
      else if n = 13 then [CHR 0x5C, CHR ''r'']
      else if n < 32 then [CHR 0x5C, CHR ''u'', CHR ''0'', CHR ''0'', hex_char (n div 16), hex_char (n mod 16)]
      else [c])"

definition quote :: "string \<Rightarrow> string" where
  "quote s = [CHR 0x22] @ concat (map quote_char s) @ [CHR 0x22]"

fun JSON_stringify :: "jsval \<Rightarrow> string" where
  "JSON_stringify JNull = ''null''"
| "JSON_stringify (JBool b) = (if b then ''true'' else ''false'')"
| "JSON_stringify (JNum n) = (case n of Dec m e \<Rightarrow> Number_toString n | _ \<Rightarrow> ''null'')"
| "JSON_stringify (JStr s) = quote s"
| "JSON_stringify (JArr xs) = ''['' @ intercalate '','' (map JSON_stringify xs) @ '']''"
| "JSON_stringify (JObj kvs) =
     ''{'' @ intercalate '','' (map (\<lambda>(k, v). quote k @ '':'' @ JSON_stringify v) kvs) @ ''}''"

section \<open>SHA-256\<close>

text \<open>
  \<^verbatim>\<open>crypto.createHash('sha256').update(s).digest('hex')\<close>: the digest of FIPS 180-4 over
  the bytes of \<open>s\<close>, in lower-case hexadecimal. Words are integers below \<open>2 ^ 32\<close>, with
  the wrap-around of the addition written out.
\<close>

definition add32 :: "int \<Rightarrow> int \<Rightarrow> int" where
  "add32 x y = (x + y) mod 4294967296"

definition shr :: "nat \<Rightarrow> int \<Rightarrow> int" where
  "shr n x = x div 2 ^ n"

definition rotr :: "nat \<Rightarrow> int \<Rightarrow> int" where
  "rotr n x = x div 2 ^ n + (x mod 2 ^ n) * 2 ^ (32 - n)"

definition Ch :: "int \<Rightarrow> int \<Rightarrow> int \<Rightarrow> int" where
  "Ch x y z = (x AND y) XOR ((4294967295 - x) AND z)"

definition Maj :: "int \<Rightarrow> int \<Rightarrow> int \<Rightarrow> int" where
  "Maj x y z = (x AND y) XOR (x AND z) XOR (y AND z)"

definition Sigma0 :: "int \<Rightarrow> int" where
  "Sigma0 x = rotr 2 x XOR rotr 13 x XOR rotr 22 x"

definition Sigma1 :: "int \<Rightarrow> int" where
  "Sigma1 x = rotr 6 x XOR rotr 11 x XOR rotr 25 x"

definition sigma0 :: "int \<Rightarrow> int" where
  "sigma0 x = rotr 7 x XOR rotr 18 x XOR shr 3 x"

definition sigma1 :: "int \<Rightarrow> int" where
  "sigma1 x = rotr 17 x XOR rotr 19 x XOR shr 10 x"

definition round_constants :: "int list" where
  "round_constants =
    [1116352408, 1899447441, 3049323471, 3921009573, 961987163, 1508970993, 2453635748,
     2870763221, 3624381080, 310598401, 607225278, 1426881987, 1925078388, 2162078206,
     2614888103, 3248222580, 3835390401, 4022224774, 264347078, 604807628, 770255983,
     1249150122, 1555081692, 1996064986, 2554220882, 2821834349, 2952996808, 3210313671,
     3336571891, 3584528711, 113926993, 338241895, 666307205, 773529912, 1294757372,
     1396182291, 1695183700, 1986661051, 2177026350, 2456956037, 2730485921, 2820302411,
     3259730800, 3345764771, 3516065817, 3600352804, 4094571909, 275423344, 430227734,
     506948616, 659060556, 883997877, 958139571, 1322822218, 1537002063, 1747873779,
     1955562222, 2024104815, 2227730452, 2361852424, 2428436474, 2756734187, 3204031479,
     3329325298]"

definition initial_hash :: "int list" where
  "initial_hash =
    [1779033703, 3144134277, 1013904242, 2773480762, 1359893119, 2600822924, 528734635,
     1541459225]"

text \<open>The message schedule, newest word first: sixteen words of the block grow to sixty-four.\<close>

fun schedule :: "nat \<Rightarrow> int list \<Rightarrow> int list" where
  "schedule 0 ws = ws"
| "schedule (Suc n) ws =
     schedule n
       (add32 (add32 (sigma1 (ws ! 1)) (ws ! 6)) (add32 (sigma0 (ws ! 14)) (ws ! 15)) # ws)"

definition sha_round :: "int list \<Rightarrow> int \<times> int \<Rightarrow> int list" where
  "sha_round st kw =
     (let a = st ! 0; b = st ! 1; c = st ! 2; d = st ! 3;
          e = st ! 4; f = st ! 5; g = st ! 6; h = st ! 7;
          t1 = add32 (add32 (add32 h (Sigma1 e)) (Ch e f g)) (add32 (fst kw) (snd kw));
          t2 = add32 (Sigma0 a) (Maj a b c)
      in [add32 t1 t2, a, b, c, add32 d t1, e, f, g])"

definition compress :: "int list \<Rightarrow> int list \<Rightarrow> int list" where
  "compress hs block =
     map2 add32 hs (foldl sha_round hs (zip round_constants (rev (schedule 48 (rev block)))))"

fun be32 :: "int list \<Rightarrow> int list" where
  "be32 (a # b # c # d # rest) = (((a * 256 + b) * 256 + c) * 256 + d) # be32 rest"
| "be32 bs = []"

fun blocks :: "int list \<Rightarrow> int list list" where
  "blocks [] = []"
| "blocks ws = take 16 ws # blocks (drop 16 ws)"

text \<open>Padding: the byte 128, zeros up to 56 modulo 64, then the bit length in eight bytes.\<close>

definition pad :: "int list \<Rightarrow> int list" where
  "pad bs =
     (let l = int (length bs);
          z = (119 - l mod 64) mod 64;
          bits = 8 * l
      in bs @ [128] @ replicate (nat z) 0 @
         map (\<lambda>i. (bits div 256 ^ i) mod 256) [7, 6, 5, 4, 3, 2, 1, 0])"

definition hex32 :: "int \<Rightarrow> string" where
  "hex32 w = map (\<lambda>i. hex_char ((w div 16 ^ i) mod 16)) [7, 6, 5, 4, 3, 2, 1, 0]"

definition sha256_hex :: "string \<Rightarrow> string" where
  "sha256_hex s =
     concat (map hex32 (foldl compress initial_hash (blocks (be32 (pad (map of_char s))))))"

section \<open>The Normalizer\<close>

record rawEventData =
  source :: string
  payload :: jsval

record canonical =
  client_id :: string
  metric :: "string option"
  amount :: "jsnum option"
  timestamp :: "int option"

record normalized = canonical +
  normalizedHash :: string

text \<open>
  \<^verbatim>\<open>new Date(s)\<close> is the engine's: the time value of the date that \<open>s\<close> denotes, or nothing
  for an invalid date. What it accepts beyond the ISO format is left to the implementation,
  so the parser is a parameter of the Normalizer.
\<close>

type_synonym date_parser = "string \<Rightarrow> int option"

subsection \<open>Type converters\<close>

definition numeric_char :: "char \<Rightarrow> bool" where
  "numeric_char c = (is_digit c \<or> c = CHR ''.'' \<or> c = CHR ''-'')"

definition typeConverters_amount :: "jsval \<Rightarrow> jsnum option" where
  "typeConverters_amount v =
     (case v of
        JNum n \<Rightarrow> Some n
      | JStr s \<Rightarrow> parseFloat (filter numeric_char s)
      | _ \<Rightarrow> None)"

text \<open>
  A date pattern anchored at the start of the string: four digits, two digits, two digits,
  with \<open>sep\<close> between them.
\<close>

definition match_date :: "string \<Rightarrow> string \<Rightarrow> (string \<times> string \<times> string) option" where
  "match_date sep s =
     (let n = length sep;
          y = take 4 s;
          m = take 2 (drop (4 + n) s);
          d = take 2 (drop (6 + 2 * n) s)
      in if length y = 4 \<and> list_all is_digit y \<and> take n (drop 4 s) = sep
            \<and> length m = 2 \<and> list_all is_digit m \<and> take n (drop (6 + n) s) = sep
            \<and> length d = 2 \<and> list_all is_digit d
         then Some (y, m, d) else None)"

definition formats :: "(string \<Rightarrow> (string \<times> string \<times> string) option) list" where
  "formats = [match_date ''/'', match_date ''-'', match_date []]"

fun try_formats ::
  "date_parser \<Rightarrow> (string \<Rightarrow> (string \<times> string \<times> string) option) list \<Rightarrow> string \<Rightarrow> int option"
where
  "try_formats Date [] s = None"
| "try_formats Date (format # fs) s =
     (case format s of
        None \<Rightarrow> try_formats Date fs s
      | Some (year, month, day) \<Rightarrow>
          (case Date (year @ ''-'' @ month @ ''-'' @ day @ ''T00:00:00Z'') of
             Some t \<Rightarrow> Some t
           | None \<Rightarrow> try_formats Date fs s))"

definition typeConverters_timestamp :: "date_parser \<Rightarrow> jsval \<Rightarrow> int option" where
  "typeConverters_timestamp Date v =
     (case v of
        JStr s \<Rightarrow> (case try_formats Date formats s of Some t \<Rightarrow> Some t | None \<Rightarrow> Date s)
      | _ \<Rightarrow> None)"

text \<open>
  \<^verbatim>\<open>typeof value === 'string' ? value : String(value || '')\<close>; \<open>None\<close> is the TypeError
  of \<open>js_String\<close>.
\<close>

definition typeConverters_metric :: "jsval \<Rightarrow> string option" where
  "typeConverters_metric v =
     (case v of
        JStr s \<Rightarrow> Some s
      | _ \<Rightarrow> js_String (if truthy v then v else JStr []))"

subsection \<open>Field mappings\<close>

datatype canonical_field = Metric | Amount | Timestamp

definition fieldMappings_default :: "(string \<times> canonical_field) list" where
  "fieldMappings_default =
     [(''metric'', Metric), (''amount'', Amount), (''timestamp'', Timestamp),
      (''value'', Metric), (''price'', Amount), (''date'', Timestamp), (''time'', Timestamp)]"

text \<open>
  \<^verbatim>\<open>this.fieldMappings[source] || this.fieldMappings.default\<close>, where \<^verbatim>\<open>fieldMappings\<close> is
  the object literal with the one key \<^verbatim>\<open>default\<close>. The lookup also sees what the literal
  inherits from \<^verbatim>\<open>Object.prototype\<close>: for a source named like one of those properties it
  finds a function (or the prototype itself), which is truthy and has no entries.
\<close>

definition Object_prototype_keys :: "string list" where
  "Object_prototype_keys =
     [''constructor'', ''__defineGetter__'', ''__defineSetter__'', ''hasOwnProperty'',
      ''__lookupGetter__'', ''__lookupSetter__'', ''isPrototypeOf'', ''propertyIsEnumerable'',
      ''toString'', ''valueOf'', ''__proto__'', ''toLocaleString'']"

definition mappings_for :: "string \<Rightarrow> (string \<times> canonical_field) list" where
  "mappings_for src =
     (if src \<in> set Object_prototype_keys then [] else fieldMappings_default)"

text \<open>
  \<^verbatim>\<open>payload.hasOwnProperty(rawField)\<close>. A payload with an own property
  \<^verbatim>\<open>hasOwnProperty\<close> shadows the method with a value that cannot be called (\<open>None\<close>: a
  TypeError). An array owns its indices and \<^verbatim>\<open>length\<close>, none of which is a raw field of
  the table.
\<close>

definition hasOwnProperty :: "jsval \<Rightarrow> string \<Rightarrow> bool option" where
  "hasOwnProperty p field =
     (case p of
        JObj kvs \<Rightarrow>
          if ''hasOwnProperty'' \<in> set (map fst kvs) then None
          else Some (field \<in> set (map fst kvs))
      | _ \<Rightarrow> Some False)"

definition get_property :: "jsval \<Rightarrow> string \<Rightarrow> jsval" where
  "get_property p field =
     (case p of
        JObj kvs \<Rightarrow> (case map_of kvs field of Some v \<Rightarrow> v | None \<Rightarrow> JNull)
      | _ \<Rightarrow> JNull)"

definition convert :: "date_parser \<Rightarrow> canonical_field \<Rightarrow> jsval \<Rightarrow> canonical \<Rightarrow> string + canonical" where
  "convert Date c v n =
     (case c of
        Metric \<Rightarrow>
          (case typeConverters_metric v of
             None \<Rightarrow> Inl ''Cannot convert object to primitive value''
           | Some s \<Rightarrow> Inr (n\<lparr>metric := Some s\<rparr>))
      | Amount \<Rightarrow> Inr (n\<lparr>amount := typeConverters_amount v\<rparr>)
      | Timestamp \<Rightarrow> Inr (n\<lparr>timestamp := typeConverters_timestamp Date v\<rparr>))"

text \<open>The loop over the entries of the table; \<open>Inl\<close> is the message of a thrown error.\<close>

fun map_fields ::
  "date_parser \<Rightarrow> (string \<times> canonical_field) list \<Rightarrow> jsval \<Rightarrow> canonical \<Rightarrow> string + canonical"
where
  "map_fields Date [] p n = Inr n"
| "map_fields Date ((rawField, c) # ms) p n =
     (case hasOwnProperty p rawField of
        None \<Rightarrow> Inl ''payload.hasOwnProperty is not a function''
      | Some False \<Rightarrow> map_fields Date ms p n
      | Some True \<Rightarrow>
          (case convert Date c (get_property p rawField) n of
             Inl err \<Rightarrow> Inl err
           | Inr n' \<Rightarrow> map_fields Date ms p n'))"

definition hashInput :: "canonical \<Rightarrow> string" where
  "hashInput n =
     JSON_stringify (JObj
       [(''client_id'', JStr (client_id n)),
        (''metric'', (case metric n of None \<Rightarrow> JNull | Some s \<Rightarrow> JStr s)),
        (''amount'', (case amount n of None \<Rightarrow> JNull | Some x \<Rightarrow> JNum x))])"

text \<open>\<open>Inl\<close> is the \<^verbatim>\<open>{ error: ... }\<close> result, \<open>Inr\<close> the normalized record.\<close>

definition normalize :: "date_parser \<Rightarrow> rawEventData \<Rightarrow> string + normalized" where
  "normalize Date rawEvent =
     (if source rawEvent = [] \<or> \<not> truthy (payload rawEvent) \<or> \<not> typeof_object (payload rawEvent)
      then Inl ''Invalid event: missing source or payload''
      else
        (case map_fields Date (mappings_for (source rawEvent)) (payload rawEvent)
                \<lparr>client_id = source rawEvent, metric = None, amount = None, timestamp = None\<rparr> of
           Inl msg \<Rightarrow> Inl (''Normalization error: '' @ msg)
         | Inr n \<Rightarrow>
             Inr \<lparr>client_id = client_id n, metric = metric n, amount = amount n,
                  timestamp = timestamp n, normalizedHash = sha256_hex (hashInput n)\<rparr>))"

section \<open>The store\<close>

datatype status = Pending | Processing | Normalized | Failed | Duplicate

text \<open>
  The documents of the two collections, with the identifier \<^verbatim>\<open>_id\<close> that the store gives
  them. The time stamps of creation (\<^verbatim>\<open>receivedAt\<close>, \<^verbatim>\<open>processedAt\<close>) are left out.
\<close>

record RawEvent = rawEventData +
  raw_id :: nat
  status :: status
  errorMessage :: "string option"
  contentHash :: string

record NormalizedEvent = normalized +
  rawEventId :: nat
  norm_id :: nat

record db =
  rawEvents :: "RawEvent list"
  normalizedEvents :: "NormalizedEvent list"

definition empty_db :: db where
  "empty_db = \<lparr>rawEvents = [], normalizedEvents = []\<rparr>"

text \<open>A new identifier differs from every identifier of the collection.\<close>

definition new_id :: "nat list \<Rightarrow> nat" where
  "new_id ids = Suc (fold max ids 0)"

fun update_first :: "('a \<Rightarrow> bool) \<Rightarrow> ('a \<Rightarrow> 'a) \<Rightarrow> 'a list \<Rightarrow> 'a list" where
  "update_first P f [] = []"
| "update_first P f (x # xs) = (if P x then f x # xs else x # update_first P f xs)"

text \<open>\<^verbatim>\<open>RawEvent.findByIdAndUpdate(id, { status, errorMessage })\<close>\<close>

definition set_failed :: "nat \<Rightarrow> string \<Rightarrow> RawEvent list \<Rightarrow> RawEvent list" where
  "set_failed i msg rs =
     update_first (\<lambda>r. raw_id r = i) (\<lambda>r. r\<lparr>status := Failed, errorMessage := Some msg\<rparr>) rs"

text \<open>\<^verbatim>\<open>RawEvent.findByIdAndUpdate(id, { status })\<close>\<close>

definition set_status :: "nat \<Rightarrow> status \<Rightarrow> RawEvent list \<Rightarrow> RawEvent list" where
  "set_status i st rs = update_first (\<lambda>r. raw_id r = i) (\<lambda>r. r\<lparr>status := st\<rparr>) rs"

text \<open>The document that \<^verbatim>\<open>$setOnInsert\<close> writes: the raw input, with status \<^verbatim>\<open>processing\<close>.\<close>

definition new_RawEvent :: "string \<Rightarrow> rawEventData \<Rightarrow> nat \<Rightarrow> RawEvent" where
  "new_RawEvent h e i =
     \<lparr>source = source e, payload = payload e, raw_id = i,
      status = Processing, errorMessage = None, contentHash = h\<rparr>"

text \<open>
  \<^verbatim>\<open>RawEvent.findOneAndUpdate({ contentHash }, { $setOnInsert: ... }, { upsert: true, new: true })\<close>:
  the first document with the hash as it is, or else a new one.
\<close>

definition upsert_raw :: "string \<Rightarrow> rawEventData \<Rightarrow> RawEvent list \<Rightarrow> RawEvent list \<times> RawEvent" where
  "upsert_raw h e rs =
     (case find (\<lambda>r. contentHash r = h) rs of
        Some r \<Rightarrow> (rs, r)
      | None \<Rightarrow>
          (let r = new_RawEvent h e (new_id (map raw_id rs)) in (rs @ [r], r)))"

section \<open>The Event Processor\<close>

definition generateRawHash :: "rawEventData \<Rightarrow> string" where
  "generateRawHash rawEventData =
     sha256_hex (JSON_stringify (JObj
       [(''source'', JStr (source rawEventData)), (''payload'', payload rawEventData)]))"

text \<open>
  The five results of \<^verbatim>\<open>processEvent\<close>, one for each \<^verbatim>\<open>return\<close>, and \<open>Rejected\<close>: the
  promise of \<^verbatim>\<open>processEvent\<close> is rejected with an error that it does not catch.
\<close>

datatype outcome =
    Success nat nat normalized
  | DuplicateRaw nat
  | ValidationError string nat
  | DuplicateNormalized nat nat
  | ProcessingError string
  | Rejected string

fun success :: "outcome \<Rightarrow> bool" where
  "success (Success r n d) = True"
| "success out = False"

fun reason :: "outcome \<Rightarrow> string" where
  "reason (Success r n d) = []"
| "reason (DuplicateRaw r) = ''duplicate''"
| "reason (ValidationError msg r) = ''validation_error''"
| "reason (DuplicateNormalized r n) = ''duplicate''"
| "reason (ProcessingError msg) = ''processing_error''"
| "reason (Rejected msg) = []"

text \<open>
  The calls that \<^verbatim>\<open>processEvent\<close> awaits, in the order of the source. Each of them is a
  request to the storage layer and can be rejected with an error of the driver (a lost
  connection, a write conflict, a time-out); \<open>rejects\<close> gives the message of the error for
  the calls that are rejected.
\<close>

datatype storage_call =
    StartSession
  | FindExistingRaw
  | AbortDuplicate
  | UpsertRaw
  | MarkFailed
  | CommitFailed
  | FindExistingNormalized
  | MarkDuplicate
  | CommitDuplicate
  | SaveNormalized
  | MarkNormalized
  | Commit
  | Abort
  | RecoveryFind
  | RecoveryMark
  | EndSession

type_synonym faults = "storage_call \<Rightarrow> string option"

definition no_faults :: faults where
  "no_faults = (\<lambda>c. None)"

text \<open>
  The errors thrown in the \<^verbatim>\<open>try\<close> block: the injected fault, the violation of the unique
  index, and the rejection of an awaited call.
\<close>

datatype failure = SimulatedFailure | UniqueConstraintViolation | StorageFault string

fun failure_message :: "failure \<Rightarrow> string" where
  "failure_message SimulatedFailure = ''Simulated database failure''"
| "failure_message UniqueConstraintViolation = ''E11000 duplicate key error''"
| "failure_message (StorageFault msg) = msg"

text \<open>\<^verbatim>\<open>await\<close> in the \<^verbatim>\<open>try\<close> block: a rejected call throws, and what follows is not run.\<close>

definition await :: "faults \<Rightarrow> storage_call \<Rightarrow> failure + 'a \<Rightarrow> failure + 'a" where
  "await rejects c continue =
     (case rejects c of Some msg \<Rightarrow> Inl (StorageFault msg) | None \<Rightarrow> continue)"

text \<open>
  \<^verbatim>\<open>normalizedEvent.save({ session })\<close>. The schema declares \<^verbatim>\<open>normalizedHash\<close> unique: the
  insertion fails when the index holds the hash already. The index covers the documents
  the transaction sees and \<open>others\<close>, the documents that concurrent sessions committed
  after the transaction began.
\<close>

definition save_normalized ::
  "NormalizedEvent list \<Rightarrow> NormalizedEvent \<Rightarrow> NormalizedEvent list \<Rightarrow> failure + NormalizedEvent list"
where
  "save_normalized others doc ns =
     (if list_ex (\<lambda>x. normalizedHash x = normalizedHash doc) (ns @ others)
      then Inl UniqueConstraintViolation else Inr (ns @ [doc]))"

text \<open>\<^verbatim>\<open>new NormalizedEvent({ ...normalized, rawEventId })\<close>, with its identifier.\<close>

definition new_NormalizedEvent :: "normalized \<Rightarrow> nat \<Rightarrow> nat \<Rightarrow> NormalizedEvent" where
  "new_NormalizedEvent nd rid i =
     \<lparr>client_id = client_id nd, metric = metric nd, amount = amount nd,
      timestamp = timestamp nd, normalizedHash = normalizedHash nd,
      rawEventId = rid, norm_id = i\<rparr>"

text \<open>
  The \<^verbatim>\<open>try\<close> block. The transaction works on its own view of the store; the result is
  the outcome with the view that has been committed (the store as it was, where the
  transaction is aborted), or \<open>Inl\<close> the error thrown. A commit that is rejected has
  committed nothing.
\<close>

definition transaction ::
  "faults \<Rightarrow> date_parser \<Rightarrow> NormalizedEvent list \<Rightarrow> db \<Rightarrow> rawEventData \<Rightarrow> bool
     \<Rightarrow> failure + outcome \<times> db"
where
  "transaction rejects Date others s rawEventData simulateFailure =
     (let rawContentHash = generateRawHash rawEventData;
          existingRaw =
            find (\<lambda>r. contentHash r = rawContentHash \<and> status r \<in> {Normalized, Processing})
              (rawEvents s)
      in await rejects FindExistingRaw
        (if existingRaw \<noteq> None \<and> status (the existingRaw) = Normalized
         then await rejects AbortDuplicate (Inr (DuplicateRaw (raw_id (the existingRaw)), s))
         else await rejects UpsertRaw
           (case upsert_raw rawContentHash rawEventData (rawEvents s) of (rs, rawEvent) \<Rightarrow>
              (case normalize Date rawEventData of
                 Inl err \<Rightarrow>
                   await rejects MarkFailed (await rejects CommitFailed
                     (Inr (ValidationError err (raw_id rawEvent),
                           s\<lparr>rawEvents := set_failed (raw_id rawEvent) err rs\<rparr>)))
               | Inr nd \<Rightarrow>
                   await rejects FindExistingNormalized
                   (case find (\<lambda>x. normalizedHash x = normalizedHash nd) (normalizedEvents s) of
                      Some existingNormalized \<Rightarrow>
                        await rejects MarkDuplicate (await rejects CommitDuplicate
                          (Inr (DuplicateNormalized (raw_id rawEvent) (norm_id existingNormalized),
                                s\<lparr>rawEvents := set_status (raw_id rawEvent) Duplicate rs\<rparr>)))
                    | None \<Rightarrow>
                        if simulateFailure then Inl SimulatedFailure
                        else
                          (let normalizedEvent =
                                 new_NormalizedEvent nd (raw_id rawEvent)
                                   (new_id (map norm_id (normalizedEvents s @ others)))
                           in await rejects SaveNormalized
                             (case save_normalized others normalizedEvent (normalizedEvents s) of
                                Inl err \<Rightarrow> Inl err
                              | Inr ns \<Rightarrow>
                                  await rejects MarkNormalized (await rejects Commit
                                    (Inr (Success (raw_id rawEvent) (norm_id normalizedEvent) nd,
                                          \<lparr>rawEvents = set_status (raw_id rawEvent) Normalized rs,
                                           normalizedEvents = ns\<rparr>))))))))))"

text \<open>
  The \<^verbatim>\<open>catch\<close> block, on the committed store: the transaction is aborted, which leaves
  the store without its writes (a rejected abort is not caught, and the store drops the
  transaction with the session). Then the RawEvent is looked up by its hash, outside the
  transaction, and marked failed when there is one, whatever its status is; an error of
  these two calls is caught and logged.
\<close>

definition recover :: "faults \<Rightarrow> db \<Rightarrow> rawEventData \<Rightarrow> failure \<Rightarrow> outcome \<times> db" where
  "recover rejects s rawEventData error =
     (case rejects Abort of
        Some msg \<Rightarrow> (Rejected msg, s)
      | None \<Rightarrow>
          (ProcessingError (failure_message error),
           (if rejects RecoveryFind \<noteq> None then s
            else
              (case find (\<lambda>r. contentHash r = generateRawHash rawEventData) (rawEvents s) of
                 Some rawEvent \<Rightarrow>
                   if rejects RecoveryMark \<noteq> None then s
                   else s\<lparr>rawEvents := set_failed (raw_id rawEvent) (failure_message error) (rawEvents s)\<rparr>
               | None \<Rightarrow> s))))"

text \<open>
  \<^verbatim>\<open>processEvent\<close>, run while other sessions commit the NormalizedEvents \<open>others\<close>, with
  the storage calls that \<open>rejects\<close> names failing. A rejected \<^verbatim>\<open>startSession\<close> rejects the
  call before anything is done; a rejected \<^verbatim>\<open>endSession\<close>, in the \<^verbatim>\<open>finally\<close> block,
  rejects it after everything is done.
\<close>

definition processEvent_session ::
  "faults \<Rightarrow> date_parser \<Rightarrow> NormalizedEvent list \<Rightarrow> db \<Rightarrow> rawEventData \<Rightarrow> bool \<Rightarrow> outcome \<times> db"
where
  "processEvent_session rejects Date others s rawEventData simulateFailure =
     (case rejects StartSession of
        Some msg \<Rightarrow> (Rejected msg, s\<lparr>normalizedEvents := normalizedEvents s @ others\<rparr>)
      | None \<Rightarrow>
          (case (case transaction rejects Date others s rawEventData simulateFailure of
                   Inr (out, t) \<Rightarrow> (out, t\<lparr>normalizedEvents := normalizedEvents t @ others\<rparr>)
                 | Inl error \<Rightarrow>
                     recover rejects (s\<lparr>normalizedEvents := normalizedEvents s @ others\<rparr>)
                       rawEventData error) of
             (out, t) \<Rightarrow>
               (case rejects EndSession of Some msg \<Rightarrow> (Rejected msg, t) | None \<Rightarrow> (out, t))))"

text \<open>\<^verbatim>\<open>processEvent\<close> with no other session at work and no storage call rejected.\<close>

definition processEvent :: "date_parser \<Rightarrow> db \<Rightarrow> rawEventData \<Rightarrow> bool \<Rightarrow> outcome \<times> db" where
  "processEvent Date s rawEventData simulateFailure =
     processEvent_session no_faults Date [] s rawEventData simulateFailure"


section \<open>The Aggregator\<close>


























section \<open>Example inputs\<close>

text \<open>The event of the specification's atomicity example.\<close>

definition example_event :: rawEventData where
  "example_event =
     \<lparr>source = ''A'', payload = JObj [(''metric'', JStr ''x''), (''amount'', JStr ''10'')]\<rparr>"




text \<open>
  The NormalizedEvent that another session, given the same canonical content, commits
  while the session of the example is at work.
\<close>

definition concurrent_event :: NormalizedEvent where
  "concurrent_event =
     \<lparr>client_id = ''A'', metric = Some ''x'', amount = Some (Dec 1 1), timestamp = None,
      normalizedHash = sha256_hex (hashInput
        \<lparr>client_id = ''A'', metric = Some ''x'', amount = Some (Dec 1 1), timestamp = None\<rparr>),
      rawEventId = 1, norm_id = 1\<rparr>"






section \<open>Settled RawEvents\<close>

text \<open>
  What a sequence of calls keeps true of the store. A RawEvent is settled when its content
  hash is that of its own source and payload and its status is final and justified:
  \<^verbatim>\<open>failed\<close> with the message with which the Normalizer rejects its input, or
  \<^verbatim>\<open>duplicate\<close> of a NormalizedEvent that is in the store, or \<^verbatim>\<open>normalized\<close>. The store is
  consistent, for a set of inputs, when the identifiers and the content hashes of its
  RawEvents are distinct and each RawEvent is the settled record of one of the inputs.
\<close>

definition input_of :: "RawEvent \<Rightarrow> rawEventData" where
  "input_of r = \<lparr>source = source r, payload = payload r\<rparr>"



section \<open>Identifiers and updates\<close>

lemma fold_max_ge_init: "(a::nat) \<le> fold max xs a"
  by (induction xs arbitrary: a) (auto intro: order_trans [OF max.cobounded2])

lemma fold_max_ge_elem: "x \<in> set xs \<Longrightarrow> (x::nat) \<le> fold max xs a"
proof (induction xs arbitrary: a)
  case Nil
  then show ?case by simp
next
  case (Cons y ys)
  show ?case
  proof (cases "x = y")
    case True
    have "y \<le> max y a" by simp
    also have "\<dots> \<le> fold max ys (max y a)" by (rule fold_max_ge_init)
    finally show ?thesis using True by simp
  next
    case False
    with Cons show ?thesis by simp
  qed
qed

lemma new_id_fresh: "new_id ids \<notin> set ids"
proof
  assume "new_id ids \<in> set ids"
  then have "new_id ids \<le> fold max ids 0" by (rule fold_max_ge_elem)
  then show False by (simp add: new_id_def)
qed

lemma raw_id_fresh: "\<forall>r\<in>set rs. raw_id r \<noteq> new_id (map raw_id rs)"
  using new_id_fresh [of "map raw_id rs"] by (auto simp: image_iff)

lemma update_first_none: "\<forall>x\<in>set xs. \<not> P x \<Longrightarrow> update_first P f xs = xs"
  by (induction xs) auto

lemma update_first_last:
  "\<forall>x\<in>set xs. \<not> P x \<Longrightarrow> P y \<Longrightarrow> update_first P f (xs @ [y]) = xs @ [f y]"
  by (induction xs) auto

lemma upsert_raw_fresh:
  assumes "\<forall>r\<in>set rs. contentHash r \<noteq> h"
  shows "upsert_raw h e rs =
          (rs @ [new_RawEvent h e (new_id (map raw_id rs))], new_RawEvent h e (new_id (map raw_id rs)))"
proof -
  from assms have "find (\<lambda>r. contentHash r = h) rs = None"
    by (auto simp: find_None_iff)
  then show ?thesis
    by (simp add: upsert_raw_def Let_def)
qed

lemma set_status_new:
  "set_status (new_id (map raw_id rs)) st (rs @ [new_RawEvent h e (new_id (map raw_id rs))])
     = rs @ [(new_RawEvent h e (new_id (map raw_id rs)))\<lparr>status := st\<rparr>]"
  unfolding set_status_def
  by (subst update_first_last) (use raw_id_fresh in \<open>auto simp: new_RawEvent_def\<close>)

lemma set_failed_new:
  "set_failed (new_id (map raw_id rs)) msg (rs @ [new_RawEvent h e (new_id (map raw_id rs))])
     = rs @ [(new_RawEvent h e (new_id (map raw_id rs)))\<lparr>status := Failed, errorMessage := Some msg\<rparr>]"
  unfolding set_failed_def
  by (subst update_first_last) (use raw_id_fresh in \<open>auto simp: new_RawEvent_def\<close>)

section \<open>An input never seen before\<close>

lemma no_faults_None: "no_faults c = None"
  by (simp add: no_faults_def)

text \<open>The transaction on an input whose content hash the store has never seen.\<close>

lemma transaction_fresh:
  assumes "\<forall>r\<in>set (rawEvents s). contentHash r \<noteq> generateRawHash e"
  shows "transaction no_faults Date others s e f =
     (let i = new_id (map raw_id (rawEvents s)); r = new_RawEvent (generateRawHash e) e i in
      case normalize Date e of
        Inl err \<Rightarrow>
          Inr (ValidationError err i,
               s\<lparr>rawEvents := rawEvents s @ [r\<lparr>status := Failed, errorMessage := Some err\<rparr>]\<rparr>)
      | Inr nd \<Rightarrow>
          (case find (\<lambda>x. normalizedHash x = normalizedHash nd) (normalizedEvents s) of
             Some ex \<Rightarrow>
               Inr (DuplicateNormalized i (norm_id ex),
                    s\<lparr>rawEvents := rawEvents s @ [r\<lparr>status := Duplicate\<rparr>]\<rparr>)
           | None \<Rightarrow>
               if f then Inl SimulatedFailure
               else if list_ex (\<lambda>x. normalizedHash x = normalizedHash nd) others
               then Inl UniqueConstraintViolation
               else Inr (Success i (new_id (map norm_id (normalizedEvents s @ others))) nd,
                         \<lparr>rawEvents = rawEvents s @ [r\<lparr>status := Normalized\<rparr>],
                          normalizedEvents = normalizedEvents s @
                            [new_NormalizedEvent nd i
                               (new_id (map norm_id (normalizedEvents s @ others)))]\<rparr>)))"
proof -
  have none: "find (\<lambda>r. contentHash r = generateRawHash e \<and> status r \<in> {Normalized, Processing}) (rawEvents s) = None"
    using assms by (auto simp: find_None_iff)
  have id: "raw_id (new_RawEvent h e i) = i" for h i
    by (simp add: new_RawEvent_def)
  have ex: "\<not> list_ex P (normalizedEvents s)"
    if "find P (normalizedEvents s) = None" for P
    using that by (auto simp: find_None_iff list_ex_iff)
  show ?thesis
  proof (cases "normalize Date e")
    case (Inl err)
    then show ?thesis
      unfolding transaction_def await_def no_faults_None Let_def none
      by (simp add: upsert_raw_fresh [OF assms] id set_failed_new)
  next
    case (Inr nd)
    show ?thesis
    proof (cases "find (\<lambda>x. normalizedHash x = normalizedHash nd) (normalizedEvents s)")
      case None
      show ?thesis
        unfolding transaction_def await_def no_faults_None Let_def none
        by (simp add: Inr None upsert_raw_fresh [OF assms] id set_status_new save_normalized_def
              ex [OF None] new_NormalizedEvent_def)
    next
      case (Some ex)
      then show ?thesis
        unfolding transaction_def await_def no_faults_None Let_def none
        by (simp add: Inr upsert_raw_fresh [OF assms] id set_status_new)
    qed
  qed
qed

lemma processEvent_sequential:
  "processEvent Date s e f =
     (case transaction no_faults Date [] s e f of
        Inr (out, t) \<Rightarrow> (out, t)
      | Inl error \<Rightarrow>
          (ProcessingError (failure_message error),
           (case find (\<lambda>r. contentHash r = generateRawHash e) (rawEvents s) of
              Some rawEvent \<Rightarrow>
                s\<lparr>rawEvents := set_failed (raw_id rawEvent) (failure_message error) (rawEvents s)\<rparr>
            | None \<Rightarrow> s)))"
  by (simp add: processEvent_def processEvent_session_def recover_def no_faults_None
      split: sum.splits prod.splits option.splits)

text \<open>\<^verbatim>\<open>processEvent\<close> on an input whose content hash the store has never seen.\<close>

lemma processEvent_fresh:
  assumes "\<forall>r\<in>set (rawEvents s). contentHash r \<noteq> generateRawHash e"
  shows "processEvent Date s e f =
     (let i = new_id (map raw_id (rawEvents s)); r = new_RawEvent (generateRawHash e) e i in
      case normalize Date e of
        Inl err \<Rightarrow>
          (ValidationError err i,
           s\<lparr>rawEvents := rawEvents s @ [r\<lparr>status := Failed, errorMessage := Some err\<rparr>]\<rparr>)
      | Inr nd \<Rightarrow>
          (case find (\<lambda>x. normalizedHash x = normalizedHash nd) (normalizedEvents s) of
             Some ex \<Rightarrow>
               (DuplicateNormalized i (norm_id ex),
                s\<lparr>rawEvents := rawEvents s @ [r\<lparr>status := Duplicate\<rparr>]\<rparr>)
           | None \<Rightarrow>
               if f then (ProcessingError ''Simulated database failure'', s)
               else (Success i (new_id (map norm_id (normalizedEvents s))) nd,
                     \<lparr>rawEvents = rawEvents s @ [r\<lparr>status := Normalized\<rparr>],
                      normalizedEvents = normalizedEvents s @
                        [new_NormalizedEvent nd i (new_id (map norm_id (normalizedEvents s)))]\<rparr>)))"
proof -
  from assms have "find (\<lambda>r. contentHash r = generateRawHash e) (rawEvents s) = None"
    by (auto simp: find_None_iff)
  then show ?thesis
    by (simp add: processEvent_sequential transaction_fresh [OF assms] Let_def
        split: sum.splits option.splits)
qed

section \<open>Evaluating the Normalizer\<close>

text \<open>The amounts of the example inputs, computed.\<close>

lemma parseFloat_example: "parseFloat ''10'' = Some (Dec 1 1)"
  by code_simp

lemma parseFloat_renamed: "parseFloat ''10.00'' = Some (Dec 1 1)"
  by code_simp

lemmas normalize_simps = normalize_def mappings_for_def Object_prototype_keys_def fieldMappings_default_def
  hasOwnProperty_def get_property_def convert_def typeConverters_metric_def typeConverters_amount_def
  typeConverters_timestamp_def parseFloat_example parseFloat_renamed numeric_char_def is_digit_def

lemma normalize_example:
  "normalize Date example_event =
     Inr \<lparr>client_id = ''A'', metric = Some ''x'', amount = Some (Dec 1 1), timestamp = None,
          normalizedHash = sha256_hex (hashInput
            \<lparr>client_id = ''A'', metric = Some ''x'', amount = Some (Dec 1 1), timestamp = None\<rparr>)\<rparr>"
  by (simp add: example_event_def normalize_simps)

section \<open>Failure and rollback\<close>

text \<open>
  Claim C2, at the input of the specification's example: on a store that has never seen
  the event, the call with the injected fault returns \<^verbatim>\<open>processing_error\<close> and leaves the
  store empty. The RawEvent that the transaction inserted is rolled back with it, so the
  recovery step finds nothing to mark: no RawEvent with status \<^verbatim>\<open>failed\<close> is left. The
  retry without the fault succeeds and leaves one NormalizedEvent.
\<close>

theorem C2_injected_failure_leaves_no_raw_event:
  "processEvent Date empty_db example_event True
     = (ProcessingError ''Simulated database failure'', empty_db)
   \<and> rawEvents (snd (processEvent Date empty_db example_event True)) = []
   \<and> success (fst (processEvent Date
         (snd (processEvent Date empty_db example_event True)) example_event False))
   \<and> length (normalizedEvents (snd (processEvent Date
         (snd (processEvent Date empty_db example_event True)) example_event False))) = 1"
  by (simp add: processEvent_fresh normalize_example empty_db_def Let_def)

text \<open>
  Claim C10: when the store holds no RawEvent with the content hash of the input and the
  call ends in \<^verbatim>\<open>processing_error\<close>, the store is exactly what it was, and so it still
  holds no RawEvent with that content hash.
\<close>

theorem C10_rollback_leaves_store_unchanged:
  assumes "\<forall>r\<in>set (rawEvents s). contentHash r \<noteq> generateRawHash e"
    and "reason (fst (processEvent Date s e f)) = ''processing_error''"
  shows "snd (processEvent Date s e f) = s
       \<and> (\<forall>r\<in>set (rawEvents (snd (processEvent Date s e f))). contentHash r \<noteq> generateRawHash e)"
proof -
  from assms(2) have "snd (processEvent Date s e f) = s"
    by (auto simp: processEvent_fresh [OF assms(1)] Let_def
        split: sum.splits option.splits if_splits)
  with assms(1) show ?thesis by simp
qed

theorem C10_rollback_witness:
  "reason (fst (processEvent Map.empty empty_db example_event True)) = ''processing_error''
   \<and> snd (processEvent Map.empty empty_db example_event True) = empty_db"
proof -
  have fresh: "\<forall>r\<in>set (rawEvents empty_db). contentHash r \<noteq> generateRawHash example_event"
    by (simp add: empty_db_def)
  have err: "reason (fst (processEvent Map.empty empty_db example_event True)) = ''processing_error''"
    by (simp add: processEvent_fresh normalize_example empty_db_def)
  from C10_rollback_leaves_store_unchanged [OF fresh err] err show ?thesis
    by simp
qed

section \<open>Idempotency\<close>

lemma new_NormalizedEvent_sel [simp]:
  "normalizedHash (new_NormalizedEvent nd rid i) = normalizedHash nd"
  "norm_id (new_NormalizedEvent nd rid i) = i"
  "rawEventId (new_NormalizedEvent nd rid i) = rid"
  by (simp_all add: new_NormalizedEvent_def)

lemma processEvent_Success:
  assumes "processEvent Date s e f = (Success rid nid nd, s1)"
  shows "normalize Date e = Inr nd"
    and "find (\<lambda>x. normalizedHash x = normalizedHash nd) (normalizedEvents s) = None"
    and "normalizedEvents s1 = normalizedEvents s @ [new_NormalizedEvent nd rid nid]"
  using assms
  by (auto simp: processEvent_sequential transaction_def await_def no_faults_None Let_def save_normalized_def
      split: if_splits sum.splits option.splits prod.splits)

lemma processEvent_known_normalized:
  assumes "normalize Date e = Inr nd"
    and "list_ex (\<lambda>x. normalizedHash x = normalizedHash nd) (normalizedEvents s)"
  shows "reason (fst (processEvent Date s e f)) = ''duplicate''
       \<and> normalizedEvents (snd (processEvent Date s e f)) = normalizedEvents s"
proof -
  from assms(2) obtain ex where
    "find (\<lambda>x. normalizedHash x = normalizedHash nd) (normalizedEvents s) = Some ex"
    by (cases "find (\<lambda>x. normalizedHash x = normalizedHash nd) (normalizedEvents s)")
       (auto simp: find_None_iff list_ex_iff)
  then show ?thesis
    by (simp add: processEvent_sequential transaction_def await_def no_faults_None Let_def assms(1) split: prod.splits)
qed

text \<open>
  Claim C1: when a call of \<^verbatim>\<open>processEvent\<close> succeeds, a second call with the same source
  and payload (with or without the injected fault) returns the reason \<^verbatim>\<open>duplicate\<close> and
  writes no NormalizedEvent, and the store holds exactly one NormalizedEvent with the
  normalized hash of the input.
\<close>

theorem C1_resubmission_is_duplicate:
  assumes "processEvent Date s e f = (Success rid nid nd, s1)"
  shows "reason (fst (processEvent Date s1 e f')) = ''duplicate''
       \<and> normalizedEvents (snd (processEvent Date s1 e f')) = normalizedEvents s1
       \<and> length (filter (\<lambda>n. normalizedHash n = normalizedHash nd) (normalizedEvents s1)) = 1"
proof -
  note first = processEvent_Success [OF assms]
  have here: "list_ex (\<lambda>x. normalizedHash x = normalizedHash nd) (normalizedEvents s1)"
    by (simp add: first(3))
  have "filter (\<lambda>n. normalizedHash n = normalizedHash nd) (normalizedEvents s) = []"
    using first(2) by (auto simp: find_None_iff filter_empty_conv)
  then have "length (filter (\<lambda>n. normalizedHash n = normalizedHash nd) (normalizedEvents s1)) = 1"
    by (simp add: first(3))
  with processEvent_known_normalized [OF first(1) here, of f'] show ?thesis
    by simp
qed


theorem C1_resubmission_witness:
  "reason (fst (processEvent Map.empty
       (snd (processEvent Map.empty empty_db example_event False)) example_event False)) = ''duplicate''
   \<and> length (normalizedEvents (snd (processEvent Map.empty
       (snd (processEvent Map.empty empty_db example_event False)) example_event False))) = 1"
proof -
  obtain nd s1 where first: "processEvent Map.empty empty_db example_event False = (Success 1 1 nd, s1)"
    and one: "length (normalizedEvents s1) = 1"
    by (simp add: processEvent_fresh normalize_example empty_db_def new_id_def)
  from C1_resubmission_is_duplicate [OF first, of False] one show ?thesis
    by (simp add: first)
qed

section \<open>Semantic duplicates\<close>


lemma hashInput_timestamp:
  "hashInput \<lparr>client_id = c, metric = m, amount = a, timestamp = t\<rparr>
     = hashInput \<lparr>client_id = c, metric = m, amount = a, timestamp = t'\<rparr>"
  by (simp add: hashInput_def)







section \<open>Key order\<close>







section \<open>A lost race\<close>

lemma transaction_example_race:
  "transaction no_faults Date [concurrent_event] empty_db example_event False = Inl UniqueConstraintViolation"
  by (simp add: transaction_fresh normalize_example empty_db_def concurrent_event_def Let_def)

text \<open>
  Claim C5, refuted: another session has committed the NormalizedEvent of the example
  after this session looked the hash up. The insertion fails with the violation of the
  unique index, and the outcome of \<^verbatim>\<open>processEvent\<close> is \<^verbatim>\<open>processing_error\<close>, not
  \<^verbatim>\<open>duplicate\<close>.
\<close>

theorem C5_lost_race_is_processing_error:
  "transaction no_faults Map.empty [concurrent_event] empty_db example_event False = Inl UniqueConstraintViolation
   \<and> reason (fst (processEvent_session no_faults Map.empty [concurrent_event] empty_db example_event False))
       = ''processing_error''"
  by (simp add: processEvent_session_def recover_def no_faults_None transaction_example_race Let_def)

text \<open>
  Claim C5 as amended: when the insertion of the NormalizedEvent fails with the violation
  of the unique index, the one \<^verbatim>\<open>catch\<close> block answers as for every other failure. The
  outcome is \<^verbatim>\<open>processing_error\<close> with the message of the storage error, and the session
  has written no NormalizedEvent. With no other session at work the insertion never fails
  in this way.
\<close>

theorem C5_unique_violation_is_processing_error:
  "(transaction no_faults Date others s e f = Inl UniqueConstraintViolation \<longrightarrow>
      fst (processEvent_session no_faults Date others s e f) = ProcessingError ''E11000 duplicate key error''
      \<and> normalizedEvents (snd (processEvent_session no_faults Date others s e f)) = normalizedEvents s @ others)
   \<and> transaction no_faults Date [] s e f \<noteq> Inl UniqueConstraintViolation"
proof -
  have "transaction no_faults Date [] s e f \<noteq> Inl UniqueConstraintViolation"
    by (auto simp: transaction_def await_def no_faults_None Let_def save_normalized_def find_None_iff list_ex_iff
        split: prod.splits sum.splits option.splits if_splits)
  then show ?thesis
    by (simp add: processEvent_session_def recover_def no_faults_None Let_def split: option.splits)
qed

theorem C5_unique_violation_witness:
  "fst (processEvent_session no_faults Map.empty [concurrent_event] empty_db example_event False)
     = ProcessingError ''E11000 duplicate key error''
   \<and> normalizedEvents (snd (processEvent_session no_faults Map.empty [concurrent_event] empty_db example_event False))
     = [concurrent_event]"
proof -
  have race: "transaction no_faults Map.empty [concurrent_event] empty_db example_event False
                = Inl UniqueConstraintViolation"
    by (rule transaction_example_race)
  from C5_unique_violation_is_processing_error [THEN conjunct1, rule_format, OF race]
  show ?thesis
    by (simp add: empty_db_def)
qed

section \<open>Rejected input\<close>



lemma new_RawEvent_sel [simp]:
  "raw_id (new_RawEvent h e i) = i"
  "contentHash (new_RawEvent h e i) = h"
  "status (new_RawEvent h e i) = Processing"
  "errorMessage (new_RawEvent h e i) = None"
  "source (new_RawEvent h e i) = source e"
  "payload (new_RawEvent h e i) = payload e"
  by (simp_all add: new_RawEvent_def)










section \<open>The metric converter\<close>









section \<open>Aggregation\<close>



section \<open>The history of a RawEvent\<close>



lemma input_of_new [simp]: "input_of (new_RawEvent h e i) = e"
  "input_of (r\<lparr>status := st\<rparr>) = input_of r"
  "input_of (r\<lparr>errorMessage := m\<rparr>) = input_of r"
  by (simp_all add: input_of_def new_RawEvent_def)












end
